theory Spec2Isabelle
  imports Main
begin

section \<open>Values of the JavaScript runtime\<close>

text \<open>
  The library handles values parsed from JSON response bodies and builds request
  payloads from object literals. \<open>json\<close> is the type of such values. An object is the
  list of its own properties in order (each name once); a number is carried as an
  integer, since the library never computes with one. The JavaScript value
  \<open>undefined\<close> is not a JSON value: an expression that may yield it has the type
  \<open>json option\<close>, with \<open>None\<close> for \<open>undefined\<close>.
\<close>

datatype json =
    JNull
  | JBool bool
  | JNum int
  | JStr string
  | JArr "json list"
  | JObj "(string \<times> json) list"

text \<open>
  What the library can throw: a value taken from a response (\<open>throw body.error\<close>), the
  error object of the HTTP client (\<open>throw err\<close>), or a \<open>TypeError\<close> raised by the
  runtime itself.
\<close>

record http_response =
  status :: nat
  data :: json

record axios_error =
  cause :: string
  response :: "http_response option"

datatype thrown =
    ThrowValue json
  | ThrowAxios axios_error
  | ThrowTypeError

text \<open>
  \<open>v.k\<close> for a value \<open>v\<close> that is neither \<open>null\<close> nor \<open>undefined\<close>, read as an own
  property. The library reads only the names \<open>success\<close>, \<open>error\<close>, \<open>data\<close> and
  \<open>response\<close> this way; no built-in prototype defines any of them, so an object yields
  its own property and every other value yields \<open>undefined\<close>.
\<close>

fun own_field :: "string \<Rightarrow> json \<Rightarrow> json option" where
  "own_field k (JObj kvs) = map_of kvs k"
| "own_field k JNull = None"
| "own_field k (JBool b) = None"
| "own_field k (JNum n) = None"
| "own_field k (JStr s) = None"
| "own_field k (JArr xs) = None"

text \<open>\<open>v?.k\<close>: \<open>undefined\<close> when \<open>v\<close> is \<open>null\<close> or \<open>undefined\<close>, \<open>v.k\<close> otherwise.\<close>

fun opt_field :: "string \<Rightarrow> json option \<Rightarrow> json option" where
  "opt_field k None = None"
| "opt_field k (Some v) = own_field k v"

text \<open>Truthiness of a defined value, as \<open>&&\<close> and \<open>if\<close> test it.\<close>

fun truthy :: "json \<Rightarrow> bool" where
  "truthy JNull = False"
| "truthy (JBool b) = b"
| "truthy (JNum n) = (n \<noteq> 0)"
| "truthy (JStr s) = (s \<noteq> [])"
| "truthy (JArr xs) = True"
| "truthy (JObj kvs) = True"

subsection \<open>The \<open>in\<close> operator and computed member access\<close>

text \<open>
  \<open>k in v\<close> looks \<open>k\<close> up among the own properties of \<open>v\<close> and then along its prototype
  chain; it raises a \<open>TypeError\<close> when \<open>v\<close> is not an object. An object parsed from JSON
  inherits from \<open>Object.prototype\<close>, an array from \<open>Array.prototype\<close> and then
  \<open>Object.prototype\<close>. The string-named members of the two prototypes are listed as
  ECMAScript 2020 and Node.js define them.
\<close>

definition object_prototype :: "string list" where
  "object_prototype =
    [''constructor'', ''__defineGetter__'', ''__defineSetter__'', ''hasOwnProperty'',
     ''__lookupGetter__'', ''__lookupSetter__'', ''isPrototypeOf'',
     ''propertyIsEnumerable'', ''toString'', ''valueOf'', ''__proto__'',
     ''toLocaleString'']"

definition array_prototype :: "string list" where
  "array_prototype =
    [''constructor'', ''concat'', ''copyWithin'', ''fill'', ''find'', ''findIndex'',
     ''lastIndexOf'', ''pop'', ''push'', ''reverse'', ''shift'', ''unshift'', ''slice'',
     ''sort'', ''splice'', ''includes'', ''indexOf'', ''join'', ''keys'', ''entries'',
     ''values'', ''forEach'', ''filter'', ''flat'', ''flatMap'', ''map'', ''every'',
     ''some'', ''reduce'', ''reduceRight'', ''toLocaleString'', ''toString'']"

definition is_digit :: "char \<Rightarrow> bool" where
  "is_digit c = (48 \<le> (of_char c :: nat) \<and> (of_char c :: nat) \<le> 57)"

text \<open>
  The array index a property name denotes: a decimal numeral without leading zeros.
\<close>

definition array_index :: "string \<Rightarrow> nat option" where
  "array_index k =
    (if k = [] \<or> \<not> list_all is_digit k \<or> (hd k = CHR ''0'' \<and> 1 < length k) then None
     else Some (foldl (\<lambda>n c. 10 * n + (of_char c - 48)) 0 k))"

definition own_array_property :: "string \<Rightarrow> json list \<Rightarrow> bool" where
  "own_array_property k xs =
    (k = ''length'' \<or> (case array_index k of None \<Rightarrow> False | Some i \<Rightarrow> i < length xs))"

text \<open>\<open>k in v\<close>; \<open>None\<close> is the \<open>TypeError\<close> raised for a right operand that is no object.\<close>

fun has_property :: "string \<Rightarrow> json \<Rightarrow> bool option" where
  "has_property k (JObj kvs) = Some (k \<in> set (map fst kvs) \<or> k \<in> set object_prototype)"
| "has_property k (JArr xs) =
     Some (own_array_property k xs \<or> k \<in> set array_prototype \<or> k \<in> set object_prototype)"
| "has_property k JNull = None"
| "has_property k (JBool b) = None"
| "has_property k (JNum n) = None"
| "has_property k (JStr s) = None"

text \<open>
  The result of \<open>v[k]\<close>: a JSON value, or a member inherited from a built-in prototype
  (a function, or for \<open>__proto__\<close> the prototype object), named by its property name.
  The library evaluates \<open>v[k]\<close> only after \<open>k in v\<close> held, so only on objects and
  arrays; the other cases are there to make the function total.
\<close>

datatype member = Value json | Builtin string | Undefined

fun get_property :: "json \<Rightarrow> string \<Rightarrow> member" where
  "get_property (JObj kvs) k =
     (case map_of kvs k of
        Some v \<Rightarrow> Value v
      | None \<Rightarrow> if k \<in> set object_prototype then Builtin k else Undefined)"
| "get_property (JArr xs) k =
     (if k = ''length'' then Value (JNum (int (length xs)))
      else (case array_index k of
              Some i \<Rightarrow> if i < length xs then Value (xs ! i)
                        else if k \<in> set array_prototype \<or> k \<in> set object_prototype
                             then Builtin k else Undefined
            | None \<Rightarrow> if k \<in> set array_prototype \<or> k \<in> set object_prototype
                      then Builtin k else Undefined))"
| "get_property JNull k = Undefined"
| "get_property (JBool b) k = Undefined"
| "get_property (JNum n) k = Undefined"
| "get_property (JStr s) k = Undefined"

subsection \<open>\<open>String.prototype.split\<close> with a one-character separator\<close>

text \<open>
  \<open>s.split(sep)\<close> cuts \<open>s\<close> at every occurrence of \<open>sep\<close>. Nothing is dropped: two
  separators in a row, or one at either end, give an empty piece, and the empty string
  gives one empty piece.
\<close>

fun str_split :: "char \<Rightarrow> string \<Rightarrow> string list" where
  "str_split sep [] = [[]]"
| "str_split sep (c # cs) =
     (if c = sep then [] # str_split sep cs
      else (case str_split sep cs of
              [] \<Rightarrow> [[c]]
            | s # ss \<Rightarrow> (c # s) # ss))"

text \<open>\<open>Array.prototype.join\<close> with a one-character separator, the inverse of the above.\<close>

fun str_join :: "char \<Rightarrow> string list \<Rightarrow> string" where
  "str_join sep [] = []"
| "str_join sep [s] = s"
| "str_join sep (s # t # ss) = s @ sep # str_join sep (t # ss)"

section \<open>The HTTP client\<close>

text \<open>
  The library talks to the device through an axios instance. What it hands to axios is
  a request: the method, the instance's base URL, the relative URL and the form that
  \<open>transformRequest\<close> builds. What the network gives back is a reply with a status and
  a parsed body, or no reply at all. axios settles the call by its default
  \<open>validateStatus\<close>: a 2xx reply resolves the promise, any other reply rejects it with
  an error that carries the response, and a failed exchange rejects it with an error
  that carries none.
\<close>

record http_request =
  http_method :: string
  base :: string
  url :: string
  form :: "(string \<times> string) list"

datatype net_reply = NoReply string | Reply nat json

datatype outcome = Resolved http_response | Rejected axios_error

definition validateStatus :: "nat \<Rightarrow> bool" where
  "validateStatus st = (200 \<le> st \<and> st < 300)"

fun settle :: "net_reply \<Rightarrow> outcome" where
  "settle (NoReply c) = Rejected \<lparr>cause = c, response = None\<rparr>"
| "settle (Reply st d) =
     (if validateStatus st then Resolved \<lparr>status = st, data = d\<rparr>
      else Rejected \<lparr>cause = ''Request failed with status code'',
                     response = Some \<lparr>status = st, data = d\<rparr>\<rparr>)"

text \<open>
  The parts of the platform the library calls and does not define: \<open>JSON.stringify\<close>,
  the \<open>href\<close> of \<open>new URL(url)\<close> (\<open>None\<close> when the constructor rejects the string with a
  \<open>TypeError\<close>), and the network with the device behind it.
\<close>

record runtime =
  json_stringify :: "json \<Rightarrow> string"
  url_href :: "string \<Rightarrow> string option"
  network :: "http_request \<Rightarrow> net_reply"

section \<open>The client: class \<open>Vyos\<close>\<close>

record vyos =
  baseURL :: string
  key :: string
  rejectUnauthorized :: bool

text \<open>The constructor: \<open>axios.create\<close> with the normalised URL, the key kept for the form.\<close>

definition Vyos :: "runtime \<Rightarrow> string \<Rightarrow> string \<Rightarrow> thrown + vyos" where
  "Vyos rt u k =
    (case url_href rt u of
       None \<Rightarrow> Inl ThrowTypeError
     | Some h \<Rightarrow> Inr \<lparr>baseURL = h, key = k, rejectUnauthorized = False\<rparr>)"

text \<open>The \<open>transformRequest\<close> of the instance: a form of two fields.\<close>

definition transformRequest :: "runtime \<Rightarrow> string \<Rightarrow> json \<Rightarrow> (string \<times> string) list" where
  "transformRequest rt k d = [(''key'', k), (''data'', json_stringify rt d)]"

text \<open>
  \<open>this.#client.post(endpoint, payload)\<close>. The state is the list of requests issued so
  far; the call appends its own.
\<close>

definition wire :: "runtime \<Rightarrow> vyos \<Rightarrow> string \<Rightarrow> json \<Rightarrow> http_request" where
  "wire rt cl endpoint payload =
    \<lparr>http_method = ''POST'', base = baseURL cl, url = endpoint,
     form = transformRequest rt (key cl) payload\<rparr>"

definition post ::
  "runtime \<Rightarrow> vyos \<Rightarrow> string \<Rightarrow> json \<Rightarrow> http_request list \<Rightarrow> outcome \<times> http_request list" where
  "post rt cl endpoint payload log =
    (settle (network rt (wire rt cl endpoint payload)), log @ [wire rt cl endpoint payload])"

text \<open>
  The \<open>try\<close> block of \<open>request\<close> after the \<open>await\<close>: \<open>body.success\<close> raises a
  \<open>TypeError\<close> on a \<open>null\<close> body; a body with \<open>success === false\<close> and a truthy
  \<open>error\<close> throws that error; any other body is returned.
\<close>

definition try_body :: "json \<Rightarrow> thrown + json" where
  "try_body body =
    (if body = JNull then Inl ThrowTypeError
     else if own_field ''success'' body = Some (JBool False) then
       (case own_field ''error'' body of
          None \<Rightarrow> Inr body
        | Some e \<Rightarrow> if truthy e then Inl (ThrowValue e) else Inr body)
     else Inr body)"

text \<open>\<open>err?.response?.data\<close> for whatever was thrown in the \<open>try\<close> block.\<close>

fun response_data :: "thrown \<Rightarrow> json option" where
  "response_data (ThrowAxios e) =
     (case response e of None \<Rightarrow> None | Some r \<Rightarrow> Some (data r))"
| "response_data (ThrowValue v) = opt_field ''data'' (own_field ''response'' v)"
| "response_data ThrowTypeError = None"

text \<open>
  The \<open>catch\<close> block: a response body with \<open>success === false\<close> and a truthy \<open>error\<close>
  throws that error, anything else rethrows what was caught.
\<close>

definition catch_err :: "thrown \<Rightarrow> thrown" where
  "catch_err err =
    (if opt_field ''success'' (response_data err) = Some (JBool False) then
       (case opt_field ''error'' (response_data err) of
          None \<Rightarrow> err
        | Some e \<Rightarrow> if truthy e then ThrowValue e else err)
     else err)"

definition request ::
  "runtime \<Rightarrow> vyos \<Rightarrow> string \<Rightarrow> json \<Rightarrow> http_request list
    \<Rightarrow> (thrown + json) \<times> http_request list" where
  "request rt cl endpoint payload log =
    (case post rt cl endpoint payload log of
       (Rejected e, log') \<Rightarrow> (Inl (catch_err (ThrowAxios e)), log')
     | (Resolved r, log') \<Rightarrow>
         (case try_body (data r) of
            Inl err \<Rightarrow> (Inl (catch_err err), log')
          | Inr body \<Rightarrow> (Inr body, log')))"

section \<open>The facades\<close>

text \<open>
  Every method builds one object literal and awaits \<open>request\<close>. The result of a method
  is what its promise settles with: \<open>Inl\<close> what was thrown, \<open>Inr\<close> what was returned.
  A method without a \<open>return\<close> resolves with \<open>undefined\<close>, the one value of type
  \<open>unit\<close> here.
\<close>

definition path_of :: "string \<Rightarrow> json" where
  "path_of p = JArr (map JStr (str_split CHR '' '' p))"

subsection \<open>class \<open>VyosConfig\<close>\<close>

definition VyosConfig_set ::
  "runtime \<Rightarrow> vyos \<Rightarrow> string \<Rightarrow> string \<Rightarrow> http_request list
    \<Rightarrow> (thrown + json) \<times> http_request list" where
  "VyosConfig_set rt cl p v log =
    request rt cl ''configure''
      (JObj [(''op'', JStr ''set''), (''path'', path_of p), (''value'', JStr v)]) log"

definition VyosConfig_delete ::
  "runtime \<Rightarrow> vyos \<Rightarrow> string \<Rightarrow> http_request list
    \<Rightarrow> (thrown + unit) \<times> http_request list" where
  "VyosConfig_delete rt cl p log =
    (case request rt cl ''configure''
            (JObj [(''op'', JStr ''delete''), (''path'', path_of p)]) log of
       (Inl err, log') \<Rightarrow> (Inl err, log')
     | (Inr body, log') \<Rightarrow> (Inr (), log'))"

text \<open>
  \<open>show\<close>: \<open>terminal\<close> is the one element of \<open>components.slice(-1)\<close>, the last piece of the
  path; \<open>data\<close> is destructured from the resolved body, and the \<open>in\<close> test on it
  raises a \<open>TypeError\<close> when it is not an object.
\<close>

definition unwrap :: "string \<Rightarrow> json option \<Rightarrow> thrown + member" where
  "unwrap terminal d =
    (case d of
       None \<Rightarrow> Inl ThrowTypeError
     | Some v \<Rightarrow>
         (case has_property terminal v of
            None \<Rightarrow> Inl ThrowTypeError
          | Some b \<Rightarrow> if b then Inr (get_property v terminal) else Inr (Value v)))"

definition VyosConfig_show ::
  "runtime \<Rightarrow> vyos \<Rightarrow> string \<Rightarrow> http_request list
    \<Rightarrow> (thrown + member) \<times> http_request list" where
  "VyosConfig_show rt cl p log =
    (case request rt cl ''retrieve''
            (JObj [(''op'', JStr ''showConfig''), (''path'', path_of p)]) log of
       (Inl err, log') \<Rightarrow> (Inl err, log')
     | (Inr body, log') \<Rightarrow>
         (unwrap (last (str_split CHR '' '' p)) (own_field ''data'' body), log'))"

definition VyosConfig_comment ::
  "runtime \<Rightarrow> vyos \<Rightarrow> string \<Rightarrow> string \<Rightarrow> http_request list
    \<Rightarrow> (thrown + unit) \<times> http_request list" where
  "VyosConfig_comment rt cl p v log =
    (case request rt cl ''configure''
            (JObj [(''op'', JStr ''comment''), (''path'', path_of p), (''value'', JStr v)])
            log of
       (Inl err, log') \<Rightarrow> (Inl err, log')
     | (Inr body, log') \<Rightarrow> (Inr (), log'))"

text \<open>
  \<open>save\<close> and \<open>load\<close> take an optional \<open>file\<close>; the default parameter stands in when
  the argument is left out.
\<close>

definition default_file :: "string option \<Rightarrow> string" where
  "default_file f = (case f of None \<Rightarrow> ''/config/config.boot'' | Some s \<Rightarrow> s)"

definition VyosConfig_save ::
  "runtime \<Rightarrow> vyos \<Rightarrow> string option \<Rightarrow> http_request list
    \<Rightarrow> (thrown + unit) \<times> http_request list" where
  "VyosConfig_save rt cl f log =
    (case request rt cl ''config-file''
            (JObj [(''op'', JStr ''save''), (''value'', JStr (default_file f))]) log of
       (Inl err, log') \<Rightarrow> (Inl err, log')
     | (Inr body, log') \<Rightarrow> (Inr (), log'))"

definition VyosConfig_load ::
  "runtime \<Rightarrow> vyos \<Rightarrow> string option \<Rightarrow> http_request list
    \<Rightarrow> (thrown + unit) \<times> http_request list" where
  "VyosConfig_load rt cl f log =
    (case request rt cl ''config-file''
            (JObj [(''op'', JStr ''load''), (''value'', JStr (default_file f))]) log of
       (Inl err, log') \<Rightarrow> (Inl err, log')
     | (Inr body, log') \<Rightarrow> (Inr (), log'))"

subsection \<open>class \<open>VyosImages\<close>\<close>

definition VyosImages_add ::
  "runtime \<Rightarrow> vyos \<Rightarrow> string \<Rightarrow> http_request list
    \<Rightarrow> (thrown + unit) \<times> http_request list" where
  "VyosImages_add rt cl u log =
    (case request rt cl ''image'' (JObj [(''op'', JStr ''add''), (''url'', JStr u)]) log of
       (Inl err, log') \<Rightarrow> (Inl err, log')
     | (Inr body, log') \<Rightarrow> (Inr (), log'))"

definition VyosImages_remove ::
  "runtime \<Rightarrow> vyos \<Rightarrow> string \<Rightarrow> http_request list
    \<Rightarrow> (thrown + unit) \<times> http_request list" where
  "VyosImages_remove rt cl n log =
    (case request rt cl ''image'' (JObj [(''op'', JStr ''delete''), (''name'', JStr n)]) log of
       (Inl err, log') \<Rightarrow> (Inl err, log')
     | (Inr body, log') \<Rightarrow> (Inr (), log'))"

subsection \<open>class \<open>VyosOps\<close>\<close>

text \<open>\<open>show\<close> returns the \<open>data\<close> property of the resolved body, \<open>undefined\<close> if it has none.\<close>

definition VyosOps_show ::
  "runtime \<Rightarrow> vyos \<Rightarrow> string \<Rightarrow> http_request list
    \<Rightarrow> (thrown + json option) \<times> http_request list" where
  "VyosOps_show rt cl p log =
    (case request rt cl ''show'' (JObj [(''op'', JStr ''show''), (''path'', path_of p)]) log of
       (Inl err, log') \<Rightarrow> (Inl err, log')
     | (Inr body, log') \<Rightarrow> (Inr (own_field ''data'' body), log'))"

definition VyosOps_generate ::
  "runtime \<Rightarrow> vyos \<Rightarrow> string \<Rightarrow> http_request list
    \<Rightarrow> (thrown + json) \<times> http_request list" where
  "VyosOps_generate rt cl p log =
    request rt cl ''generate''
      (JObj [(''op'', JStr ''generate''), (''path'', path_of p)]) log"

section \<open>Predicates and fixtures used in the statements\<close>

text \<open>A value on which the \<open>in\<close> operator works: an object or an array.\<close>

fun is_object :: "json option \<Rightarrow> bool" where
  "is_object (Some (JObj kvs)) = True"
| "is_object (Some (JArr xs)) = True"
| "is_object (Some JNull) = False"
| "is_object (Some (JBool b)) = False"
| "is_object (Some (JNum n)) = False"
| "is_object (Some (JStr s)) = False"
| "is_object None = False"

text \<open>Two separators in a row somewhere in a string.\<close>

fun adjacent :: "char \<Rightarrow> string \<Rightarrow> bool" where
  "adjacent sep (c # d # cs) = ((c = sep \<and> d = sep) \<or> adjacent sep (d # cs))"
| "adjacent sep [c] = False"
| "adjacent sep [] = False"

text \<open>
  A simulated device: a runtime whose network answers every request with the same
  reply. Its \<open>JSON.stringify\<close> is a stand-in that tags the kind of value it was given;
  no statement below depends on what it returns.
\<close>

fun tag_of :: "json \<Rightarrow> string" where
  "tag_of JNull = ''null''"
| "tag_of (JBool b) = ''boolean''"
| "tag_of (JNum n) = ''number''"
| "tag_of (JStr s) = ''string''"
| "tag_of (JArr xs) = ''array''"
| "tag_of (JObj kvs) = ''object''"

definition simulated :: "net_reply \<Rightarrow> runtime" where
  "simulated r = \<lparr>json_stringify = tag_of, url_href = Some, network = (\<lambda>q. r)\<rparr>"

definition my_vyos :: vyos where
  "my_vyos = \<lparr>baseURL = ''https://my-vyos.local/'', key = ''API-KEY'',
              rejectUnauthorized = False\<rparr>"

text \<open>An envelope \<open>{ success, data, error }\<close>.\<close>

definition envelope :: "bool \<Rightarrow> json \<Rightarrow> json \<Rightarrow> json" where
  "envelope ok d e = JObj [(''success'', JBool ok), (''data'', d), (''error'', e)]"

section \<open>Splitting and joining\<close>

lemma str_split_nonempty: "str_split sep p \<noteq> []"
  by (induction p) (auto split: list.splits)

lemma str_join_split: "str_join sep (str_split sep p) = p"
proof (induction p)
  case Nil
  then show ?case by simp
next
  case (Cons c cs)
  show ?case
  proof (cases "str_split sep cs")
    case Nil
    then show ?thesis using str_split_nonempty by blast
  next
    case (Cons s ss)
    with Cons.IH show ?thesis by (cases ss) auto
  qed
qed

lemma str_split_no_sep: "s \<in> set (str_split sep p) \<Longrightarrow> sep \<notin> set s"
  by (induction p arbitrary: s) (auto split: if_splits list.splits)

lemma hd_split: "(hd (str_split sep p) = []) = (p = [] \<or> hd p = sep)"
  by (cases p) (auto split: list.splits)

lemma tl_split:
  "([] \<in> set (tl (str_split sep p))) = ((p \<noteq> [] \<and> last p = sep) \<or> adjacent sep p)"
proof (induction p)
  case Nil
  then show ?case by simp
next
  case (Cons c cs)
  obtain s ss where sp: "str_split sep cs = s # ss"
    using str_split_nonempty [of sep cs] by (cases "str_split sep cs") auto
  have hd_eq: "(s = []) = (cs = [] \<or> hd cs = sep)"
    using hd_split [of sep cs] sp by simp
  show ?case
  proof (cases "c = sep")
    case True
    have "([] \<in> set (tl (str_split sep (c # cs)))) = (s = [] \<or> [] \<in> set ss)"
      using True sp by auto
    also have "\<dots> = ((cs = [] \<or> hd cs = sep) \<or> (cs \<noteq> [] \<and> last cs = sep) \<or> adjacent sep cs)"
      using hd_eq Cons.IH sp by simp
    also have "\<dots> = (((c # cs) \<noteq> [] \<and> last (c # cs) = sep) \<or> adjacent sep (c # cs))"
      using True by (cases cs) auto
    finally show ?thesis .
  next
    case False
    have "([] \<in> set (tl (str_split sep (c # cs)))) = ([] \<in> set ss)"
      using False sp by simp
    also have "\<dots> = ((cs \<noteq> [] \<and> last cs = sep) \<or> adjacent sep cs)"
      using Cons.IH sp by simp
    also have "\<dots> = (((c # cs) \<noteq> [] \<and> last (c # cs) = sep) \<or> adjacent sep (c # cs))"
      using False by (cases cs) auto
    finally show ?thesis .
  qed
qed

text \<open>\<open>adjacent\<close> says what it should: the string has two separators side by side.\<close>

lemma adjacent_iff: "adjacent sep p = (\<exists>u v. p = u @ [sep, sep] @ v)"
proof (induction sep p rule: adjacent.induct)
  case (1 sep c d cs)
  show ?case
  proof
    assume "adjacent sep (c # d # cs)"
    then consider "c = sep \<and> d = sep" | "adjacent sep (d # cs)" by auto
    then show "\<exists>u v. c # d # cs = u @ [sep, sep] @ v"
    proof cases
      case 1
      then have "c # d # cs = [] @ [sep, sep] @ cs" by simp
      then show ?thesis by blast
    next
      case 2
      with "1.IH" obtain u v where "d # cs = u @ [sep, sep] @ v" by blast
      then have "c # d # cs = (c # u) @ [sep, sep] @ v" by simp
      then show ?thesis by blast
    qed
  next
    assume "\<exists>u v. c # d # cs = u @ [sep, sep] @ v"
    then obtain u v where uv: "c # d # cs = u @ [sep, sep] @ v" by blast
    show "adjacent sep (c # d # cs)"
    proof (cases u)
      case Nil
      with uv show ?thesis by simp
    next
      case (Cons a u')
      with uv have "d # cs = u' @ [sep, sep] @ v" by simp
      then have "\<exists>u v. d # cs = u @ [sep, sep] @ v" by blast
      then have "adjacent sep (d # cs)" using "1.IH" by simp
      then show ?thesis by simp
    qed
  qed
next
  case (2 sep c)
  then show ?case by (auto simp: append_eq_Cons_conv)
next
  case (3 sep)
  then show ?case by simp
qed

section \<open>The request gateway\<close>

lemma request_log: "snd (request rt cl E D log) = log @ [wire rt cl E D]"
  by (simp add: request_def post_def split: outcome.splits sum.splits prod.splits)

lemma own_field_Some_not_null: "own_field k v = Some x \<Longrightarrow> v \<noteq> JNull"
  by (cases v) auto

lemma request_resolves:
  assumes "network rt (wire rt cl E D) = Reply st env"
    and "validateStatus st"
    and "own_field ''success'' env = Some (JBool True)"
  shows "request rt cl E D log = (Inr env, log @ [wire rt cl E D])"
proof -
  have "env \<noteq> JNull" using assms(3) by (rule own_field_Some_not_null)
  then have "try_body env = Inr env"
    using assms by (simp add: try_body_def)
  then show ?thesis
    using assms by (simp add: request_def post_def)
qed

text \<open>
  A rejected call whose error carries no response, or a response whose body does not
  have \<open>success === false\<close>, rethrows the error of the HTTP client.
\<close>

lemma rejected_without_failing_envelope_rethrows:
  assumes "settle (network rt (wire rt cl E D)) = Rejected e"
    and "opt_field ''success'' (response_data (ThrowAxios e)) \<noteq> Some (JBool False)"
  shows "request rt cl E D log = (Inl (ThrowAxios e), log @ [wire rt cl E D])"
  using assms by (simp add: request_def post_def catch_err_def)

text \<open>
  Claim C1, as the code has it: when the reply carries an envelope whose \<open>success\<close> is
  \<open>false\<close> and whose \<open>error\<close> is a non-empty string, \<open>request\<close> throws exactly that
  string, and it does so for every status code, 2xx or not; one request was issued.
  The remote failure is the thrown string itself: the library has no error class.
\<close>

theorem failing_envelope_throws_its_error:
  assumes "network rt (wire rt cl E D) = Reply st env"
    and "own_field ''success'' env = Some (JBool False)"
    and "own_field ''error'' env = Some (JStr msg)"
    and "msg \<noteq> []"
  shows "request rt cl E D log = (Inl (ThrowValue (JStr msg)), log @ [wire rt cl E D])"
proof (cases "validateStatus st")
  case True
  have "env \<noteq> JNull" using assms(2) by (rule own_field_Some_not_null)
  then have "try_body env = Inl (ThrowValue (JStr msg))"
    using assms by (simp add: try_body_def)
  moreover have "catch_err (ThrowValue (JStr msg)) = ThrowValue (JStr msg)"
    by (simp add: catch_err_def)
  ultimately show ?thesis
    using assms(1) True by (simp add: request_def post_def)
next
  case False
  then show ?thesis
    using assms by (simp add: request_def post_def catch_err_def)
qed

theorem failing_envelope_throws_its_error_witness:
  "fst (request (simulated (Reply 200 (envelope False JNull (JStr ''Configuration path is empty''))))
      my_vyos ''retrieve'' (JObj [(''op'', JStr ''showConfig''), (''path'', JArr [JStr ''nat''])]) [])
    = Inl (ThrowValue (JStr ''Configuration path is empty''))
   \<and> fst (request (simulated (Reply 500 (envelope False JNull (JStr ''Configuration path is empty''))))
      my_vyos ''retrieve'' (JObj [(''op'', JStr ''showConfig''), (''path'', JArr [JStr ''nat''])]) [])
    = Inl (ThrowValue (JStr ''Configuration path is empty''))"
  using failing_envelope_throws_its_error
    [of "simulated (Reply 200 (envelope False JNull (JStr ''Configuration path is empty'')))"
        my_vyos "''retrieve''" "JObj [(''op'', JStr ''showConfig''), (''path'', JArr [JStr ''nat''])]"
        200 "envelope False JNull (JStr ''Configuration path is empty'')"
        "''Configuration path is empty''" "[]"]
    failing_envelope_throws_its_error
    [of "simulated (Reply 500 (envelope False JNull (JStr ''Configuration path is empty'')))"
        my_vyos "''retrieve''" "JObj [(''op'', JStr ''showConfig''), (''path'', JArr [JStr ''nat''])]"
        500 "envelope False JNull (JStr ''Configuration path is empty'')"
        "''Configuration path is empty''" "[]"]
  by (simp add: simulated_def envelope_def)

text \<open>
  Claim C1 as first stated asks only for the error message to be present. The guard
  \<open>body.success === false && body.error\<close> tests its truthiness: with the envelope
  \<open>{ success: false, data: null, error: "" }\<close> the call resolves with the envelope on
  status 200 and throws the HTTP client's error on status 500.
\<close>

theorem empty_error_is_not_thrown:
  "fst (request (simulated (Reply 200 (envelope False JNull (JStr '''')))) my_vyos
          ''configure'' (JObj [(''op'', JStr ''set'')]) [])
     = Inr (envelope False JNull (JStr ''''))
   \<and> fst (request (simulated (Reply 500 (envelope False JNull (JStr '''')))) my_vyos
          ''configure'' (JObj [(''op'', JStr ''set'')]) [])
     = Inl (ThrowAxios \<lparr>cause = ''Request failed with status code'',
            response = Some \<lparr>status = 500, data = envelope False JNull (JStr '''')\<rparr>\<rparr>)"
  by (simp add: request_def post_def simulated_def envelope_def try_body_def catch_err_def
      validateStatus_def)

text \<open>
  Claim C2, as the code has it: when a 2xx reply carries an envelope whose \<open>success\<close>
  is \<open>true\<close>, \<open>request\<close> resolves with the whole envelope, unchanged; the caller reads
  \<open>data\<close> from it.
\<close>

theorem success_resolves_with_envelope:
  assumes "network rt (wire rt cl E D) = Reply st env"
    and "validateStatus st"
    and "own_field ''success'' env = Some (JBool True)"
  shows "request rt cl E D log = (Inr env, log @ [wire rt cl E D])"
  using request_resolves [OF assms] by simp

theorem success_resolves_with_envelope_witness:
  "fst (request (simulated (Reply 200 (envelope True (JStr ''x'') JNull))) my_vyos
          ''show'' (JObj [(''op'', JStr ''show'')]) [])
     = Inr (envelope True (JStr ''x'') JNull)"
  using success_resolves_with_envelope
    [of "simulated (Reply 200 (envelope True (JStr ''x'') JNull))" my_vyos "''show''"
        "JObj [(''op'', JStr ''show'')]" 200 "envelope True (JStr ''x'') JNull" "[]"]
  by (simp add: simulated_def envelope_def validateStatus_def)

text \<open>
  Claim C2 as first stated has \<open>request\<close> resolve with the \<open>data\<close> field. For the
  envelope \<open>{ success: true, data: "x", error: null }\<close> on status 200 the result is not
  \<open>"x"\<close>.
\<close>

theorem success_does_not_resolve_with_data:
  "fst (request (simulated (Reply 200 (envelope True (JStr ''x'') JNull))) my_vyos
          ''show'' (JObj [(''op'', JStr ''show'')]) [])
     \<noteq> Inr (JStr ''x'')"
  by (simp add: request_def post_def simulated_def envelope_def try_body_def catch_err_def
      validateStatus_def)

text \<open>
  Claim C4: when the exchange fails and no reply arrives, \<open>request\<close> rethrows the HTTP
  client's error, which carries the cause and no response; what is thrown is never a
  value taken from an envelope, and the list of requests issued grows by one, so
  nothing was retried.
\<close>

theorem no_reply_rethrows_transport_error:
  assumes "network rt (wire rt cl E D) = NoReply c"
  shows "request rt cl E D log =
    (Inl (ThrowAxios \<lparr>cause = c, response = None\<rparr>), log @ [wire rt cl E D])"
  using assms by (simp add: request_def post_def catch_err_def)

theorem no_reply_rethrows_transport_error_witness:
  "request (simulated (NoReply ''ECONNREFUSED'')) my_vyos ''show''
      (JObj [(''op'', JStr ''show''), (''path'', JArr [JStr ''date''])]) []
    = (Inl (ThrowAxios \<lparr>cause = ''ECONNREFUSED'', response = None\<rparr>),
       [\<lparr>http_method = ''POST'', base = ''https://my-vyos.local/'', url = ''show'',
         form = [(''key'', ''API-KEY''), (''data'', ''object'')]\<rparr>])"
  using no_reply_rethrows_transport_error
    [of "simulated (NoReply ''ECONNREFUSED'')" my_vyos "''show''"
        "JObj [(''op'', JStr ''show''), (''path'', JArr [JStr ''date''])]" "''ECONNREFUSED''" "[]"]
  by (simp add: simulated_def wire_def my_vyos_def transformRequest_def)

section \<open>What the facades send\<close>

lemma snd_settled:
  "snd (case x of (Inl err, l) \<Rightarrow> (f err l, l) | (Inr body, l) \<Rightarrow> (g body l, l)) = snd x"
  by (cases x) (auto split: sum.splits)

lemma VyosConfig_set_log:
  "snd (VyosConfig_set rt cl p v log) = log @ [wire rt cl ''configure''
     (JObj [(''op'', JStr ''set''), (''path'', path_of p), (''value'', JStr v)])]"
  by (simp add: VyosConfig_set_def request_log)

lemma VyosConfig_delete_log:
  "snd (VyosConfig_delete rt cl p log) = log @ [wire rt cl ''configure''
     (JObj [(''op'', JStr ''delete''), (''path'', path_of p)])]"
  by (simp add: VyosConfig_delete_def snd_settled request_log)

lemma VyosConfig_show_log:
  "snd (VyosConfig_show rt cl p log) = log @ [wire rt cl ''retrieve''
     (JObj [(''op'', JStr ''showConfig''), (''path'', path_of p)])]"
  by (simp add: VyosConfig_show_def snd_settled request_log)

lemma VyosConfig_comment_log:
  "snd (VyosConfig_comment rt cl p v log) = log @ [wire rt cl ''configure''
     (JObj [(''op'', JStr ''comment''), (''path'', path_of p), (''value'', JStr v)])]"
  by (simp add: VyosConfig_comment_def snd_settled request_log)

lemma VyosConfig_save_log:
  "snd (VyosConfig_save rt cl f log) = log @ [wire rt cl ''config-file''
     (JObj [(''op'', JStr ''save''), (''value'', JStr (default_file f))])]"
  by (simp add: VyosConfig_save_def snd_settled request_log)

lemma VyosConfig_load_log:
  "snd (VyosConfig_load rt cl f log) = log @ [wire rt cl ''config-file''
     (JObj [(''op'', JStr ''load''), (''value'', JStr (default_file f))])]"
  by (simp add: VyosConfig_load_def snd_settled request_log)

lemma VyosImages_add_log:
  "snd (VyosImages_add rt cl u log) = log @ [wire rt cl ''image''
     (JObj [(''op'', JStr ''add''), (''url'', JStr u)])]"
  by (simp add: VyosImages_add_def snd_settled request_log)

lemma VyosImages_remove_log:
  "snd (VyosImages_remove rt cl n log) = log @ [wire rt cl ''image''
     (JObj [(''op'', JStr ''delete''), (''name'', JStr n)])]"
  by (simp add: VyosImages_remove_def snd_settled request_log)

lemma VyosOps_show_log:
  "snd (VyosOps_show rt cl p log) = log @ [wire rt cl ''show''
     (JObj [(''op'', JStr ''show''), (''path'', path_of p)])]"
  by (simp add: VyosOps_show_def snd_settled request_log)

lemma VyosOps_generate_log:
  "snd (VyosOps_generate rt cl p log) = log @ [wire rt cl ''generate''
     (JObj [(''op'', JStr ''generate''), (''path'', path_of p)])]"
  by (simp add: VyosOps_generate_def request_log)

lemmas facade_logs = VyosConfig_set_log VyosConfig_delete_log VyosConfig_show_log
  VyosConfig_comment_log VyosConfig_save_log VyosConfig_load_log VyosImages_add_log
  VyosImages_remove_log VyosOps_show_log VyosOps_generate_log

text \<open>
  Claim C5: for a client constructed from a URL and a key, \<open>request\<close> with endpoint
  \<open>E\<close> and descriptor \<open>D\<close> adds exactly one request to those issued: a POST against
  the instance's base URL (the normalised URL) with relative URL \<open>E\<close>, whose form has
  the two fields \<open>key\<close>, the configured key, and \<open>data\<close>, \<open>JSON.stringify\<close> of \<open>D\<close>. Each
  facade operation issues its one request to its fixed endpoint: \<open>configure\<close> for
  set, delete and comment, \<open>retrieve\<close> for showConfig, \<open>config-file\<close> for save and
  load, \<open>image\<close> for add and delete, \<open>show\<close> for show, \<open>generate\<close> for generate.
\<close>

theorem one_post_per_call:
  assumes "url_href rt u = Some h"
    and "Vyos rt u k = Inr cl"
  shows "snd (request rt cl E D log) =
           log @ [\<lparr>http_method = ''POST'', base = h, url = E,
                   form = [(''key'', k), (''data'', json_stringify rt D)]\<rparr>]
       \<and> snd (VyosConfig_set rt cl p v log) = log @ [wire rt cl ''configure''
           (JObj [(''op'', JStr ''set''), (''path'', path_of p), (''value'', JStr v)])]
       \<and> snd (VyosConfig_delete rt cl p log) = log @ [wire rt cl ''configure''
           (JObj [(''op'', JStr ''delete''), (''path'', path_of p)])]
       \<and> snd (VyosConfig_comment rt cl p v log) = log @ [wire rt cl ''configure''
           (JObj [(''op'', JStr ''comment''), (''path'', path_of p), (''value'', JStr v)])]
       \<and> snd (VyosConfig_show rt cl p log) = log @ [wire rt cl ''retrieve''
           (JObj [(''op'', JStr ''showConfig''), (''path'', path_of p)])]
       \<and> snd (VyosConfig_save rt cl f log) = log @ [wire rt cl ''config-file''
           (JObj [(''op'', JStr ''save''), (''value'', JStr (default_file f))])]
       \<and> snd (VyosConfig_load rt cl f log) = log @ [wire rt cl ''config-file''
           (JObj [(''op'', JStr ''load''), (''value'', JStr (default_file f))])]
       \<and> snd (VyosImages_add rt cl a log) = log @ [wire rt cl ''image''
           (JObj [(''op'', JStr ''add''), (''url'', JStr a)])]
       \<and> snd (VyosImages_remove rt cl n log) = log @ [wire rt cl ''image''
           (JObj [(''op'', JStr ''delete''), (''name'', JStr n)])]
       \<and> snd (VyosOps_show rt cl p log) = log @ [wire rt cl ''show''
           (JObj [(''op'', JStr ''show''), (''path'', path_of p)])]
       \<and> snd (VyosOps_generate rt cl p log) = log @ [wire rt cl ''generate''
           (JObj [(''op'', JStr ''generate''), (''path'', path_of p)])]"
proof -
  have "cl = \<lparr>baseURL = h, key = k, rejectUnauthorized = False\<rparr>"
    using assms by (simp add: Vyos_def)
  then have "wire rt cl E D = \<lparr>http_method = ''POST'', base = h, url = E,
      form = [(''key'', k), (''data'', json_stringify rt D)]\<rparr>"
    by (simp add: wire_def transformRequest_def)
  then show ?thesis
    by (simp add: facade_logs request_log)
qed

theorem one_post_per_call_witness:
  "Vyos (simulated (NoReply ''ETIMEDOUT'')) ''https://my-vyos.local/'' ''API-KEY'' = Inr my_vyos
   \<and> snd (request (simulated (NoReply ''ETIMEDOUT'')) my_vyos ''configure''
        (JObj [(''op'', JStr ''set'')]) [])
      = [\<lparr>http_method = ''POST'', base = ''https://my-vyos.local/'', url = ''configure'',
           form = [(''key'', ''API-KEY''), (''data'', ''object'')]\<rparr>]
   \<and> map url (snd (VyosImages_remove (simulated (NoReply ''ETIMEDOUT'')) my_vyos
        ''1.4-rolling-202101301326'' [])) = [''image'']"
  using one_post_per_call
    [of "simulated (NoReply ''ETIMEDOUT'')" "''https://my-vyos.local/''"
        "''https://my-vyos.local/''" "''API-KEY''" my_vyos "''configure''"
        "JObj [(''op'', JStr ''set'')]" "[]" _ _ _ _ "''1.4-rolling-202101301326''"]
  by (simp add: simulated_def my_vyos_def Vyos_def wire_def)

text \<open>
  Claim C7: a path is split at every single space, by a function of the path alone.
  \<open>"system host-name"\<close> gives \<open>["system", "host-name"]\<close> and \<open>"date"\<close> gives
  \<open>["date"]\<close>; in general the pieces contain no space and joined by single spaces they
  give the path back. Each facade that takes a path (set, delete, show and comment of
  the configuration, show and generate of the operational mode) sends the pieces of
  its argument as the \<open>path\<close> of its descriptor.
\<close>

theorem paths_split_on_single_spaces:
  "str_split CHR '' '' ''system host-name'' = [''system'', ''host-name'']
   \<and> str_split CHR '' '' ''date'' = [''date'']
   \<and> str_join CHR '' '' (str_split CHR '' '' p) = p
   \<and> list_all (\<lambda>s. CHR '' '' \<notin> set s) (str_split CHR '' '' p)
   \<and> map form (snd (VyosConfig_set rt cl p v [])) =
       [[(''key'', key cl), (''data'', json_stringify rt (JObj [(''op'', JStr ''set''),
          (''path'', JArr (map JStr (str_split CHR '' '' p))), (''value'', JStr v)]))]]
   \<and> map form (snd (VyosConfig_delete rt cl p [])) =
       [[(''key'', key cl), (''data'', json_stringify rt (JObj [(''op'', JStr ''delete''),
          (''path'', JArr (map JStr (str_split CHR '' '' p)))]))]]
   \<and> map form (snd (VyosConfig_show rt cl p [])) =
       [[(''key'', key cl), (''data'', json_stringify rt (JObj [(''op'', JStr ''showConfig''),
          (''path'', JArr (map JStr (str_split CHR '' '' p)))]))]]
   \<and> map form (snd (VyosConfig_comment rt cl p v [])) =
       [[(''key'', key cl), (''data'', json_stringify rt (JObj [(''op'', JStr ''comment''),
          (''path'', JArr (map JStr (str_split CHR '' '' p))), (''value'', JStr v)]))]]
   \<and> map form (snd (VyosOps_show rt cl p [])) =
       [[(''key'', key cl), (''data'', json_stringify rt (JObj [(''op'', JStr ''show''),
          (''path'', JArr (map JStr (str_split CHR '' '' p)))]))]]
   \<and> map form (snd (VyosOps_generate rt cl p [])) =
       [[(''key'', key cl), (''data'', json_stringify rt (JObj [(''op'', JStr ''generate''),
          (''path'', JArr (map JStr (str_split CHR '' '' p)))]))]]"
proof -
  have "list_all (\<lambda>s. CHR '' '' \<notin> set s) (str_split CHR '' '' p)"
    using str_split_no_sep [of _ "CHR '' ''" p] by (simp add: list_all_iff)
  then show ?thesis
    by (simp add: str_join_split facade_logs wire_def transformRequest_def path_of_def)
qed

text \<open>
  Claim C8, as the code has it: the pieces sent as the path of a descriptor are all
  non-empty exactly when the path string is non-empty, neither begins nor ends with a
  space and has no two spaces in a row.
\<close>

theorem segments_nonempty_iff:
  "([] \<notin> set (str_split CHR '' '' p)) =
     (p \<noteq> [] \<and> hd p \<noteq> CHR '' '' \<and> last p \<noteq> CHR '' '' \<and> \<not> adjacent CHR '' '' p)"
proof -
  obtain s ss where sp: "str_split CHR '' '' p = s # ss"
    using str_split_nonempty [of "CHR '' ''" p] by (cases "str_split CHR '' '' p") auto
  have "([] \<in> set (str_split CHR '' '' p)) =
      (hd (str_split CHR '' '' p) = [] \<or> [] \<in> set (tl (str_split CHR '' '' p)))"
    using sp by auto
  then show ?thesis unfolding hd_split tl_split by auto
qed

text \<open>
  Claim C8 as first stated has every piece non-empty for every path a facade accepts.
  A facade accepts any string: \<open>"a  b"\<close>, with two spaces, gives the path
  \<open>["a", "", "b"]\<close>.
\<close>

theorem double_space_gives_empty_segment:
  "[] \<in> set (str_split CHR '' '' ''a  b'')
   \<and> path_of ''a  b'' = JArr [JStr ''a'', JStr [], JStr ''b'']"
  by (simp add: path_of_def)

text \<open>
  Claim C9: \<open>save\<close> and \<open>load\<close> called without a file send a descriptor whose \<open>value\<close>
  is \<open>/config/config.boot\<close>.
\<close>

theorem default_config_file:
  "map form (snd (VyosConfig_save rt cl None [])) =
     [[(''key'', key cl),
       (''data'', json_stringify rt
          (JObj [(''op'', JStr ''save''), (''value'', JStr ''/config/config.boot'')]))]]
   \<and> map form (snd (VyosConfig_load rt cl None [])) =
     [[(''key'', key cl),
       (''data'', json_stringify rt
          (JObj [(''op'', JStr ''load''), (''value'', JStr ''/config/config.boot'')]))]]"
  by (simp add: VyosConfig_save_log VyosConfig_load_log wire_def transformRequest_def
      default_file_def)

section \<open>What the facades resolve with\<close>




section \<open>The unwrapping step of \<open>show\<close>\<close>

text \<open>
  Claim C10: \<open>show\<close> applies the \<open>in\<close> test to the envelope's data as it is. When a
  2xx reply carries an envelope whose \<open>success\<close> is \<open>true\<close> and whose data is \<open>null\<close>,
  a string, a number, a boolean or missing, \<open>show\<close> throws a \<open>TypeError\<close>; it resolves
  when the data is an object or an array.
\<close>

theorem show_throws_unless_data_is_object:
  assumes "network rt (wire rt cl ''retrieve''
             (JObj [(''op'', JStr ''showConfig''), (''path'', path_of p)])) = Reply st env"
    and "validateStatus st"
    and "own_field ''success'' env = Some (JBool True)"
  shows "(\<not> is_object (own_field ''data'' env)
            \<longrightarrow> fst (VyosConfig_show rt cl p log) = Inl ThrowTypeError)
       \<and> (is_object (own_field ''data'' env)
            \<longrightarrow> (\<exists>m. fst (VyosConfig_show rt cl p log) = Inr m))"
proof -
  have r: "request rt cl ''retrieve''
             (JObj [(''op'', JStr ''showConfig''), (''path'', path_of p)]) log
           = (Inr env, log @ [wire rt cl ''retrieve''
             (JObj [(''op'', JStr ''showConfig''), (''path'', path_of p)])])"
    using assms by (rule request_resolves)
  show ?thesis
    by (cases "own_field ''data'' env" rule: is_object.cases)
      (simp_all add: r VyosConfig_show_def unwrap_def)
qed

theorem show_throws_unless_data_is_object_witness:
  "fst (VyosConfig_show (simulated (Reply 200 (envelope True JNull JNull))) my_vyos
          ''system host-name'' []) = Inl ThrowTypeError
   \<and> fst (VyosConfig_show (simulated (Reply 200 (envelope True (JStr ''my-vyos'') JNull))) my_vyos
          ''system host-name'' []) = Inl ThrowTypeError
   \<and> (\<exists>m. fst (VyosConfig_show (simulated (Reply 200 (envelope True (JObj []) JNull))) my_vyos
          ''system host-name'' []) = Inr m)"
  using show_throws_unless_data_is_object
    [of "simulated (Reply 200 (envelope True JNull JNull))" my_vyos "''system host-name''"
        200 "envelope True JNull JNull" "[]"]
    show_throws_unless_data_is_object
    [of "simulated (Reply 200 (envelope True (JStr ''my-vyos'') JNull))" my_vyos
        "''system host-name''" 200 "envelope True (JStr ''my-vyos'') JNull" "[]"]
    show_throws_unless_data_is_object
    [of "simulated (Reply 200 (envelope True (JObj []) JNull))" my_vyos
        "''system host-name''" 200 "envelope True (JObj []) JNull" "[]"]
  by (simp add: simulated_def envelope_def validateStatus_def)

text \<open>
  When the data is a mapping and the last piece of the path is not the name of a
  member of \<open>Object.prototype\<close>, \<open>show\<close> returns the value under that key if the mapping
  has one and the whole mapping otherwise.
\<close>

lemma show_unwraps:
  assumes "network rt (wire rt cl ''retrieve''
             (JObj [(''op'', JStr ''showConfig''), (''path'', path_of p)])) = Reply st env"
    and "validateStatus st"
    and "own_field ''success'' env = Some (JBool True)"
    and "own_field ''data'' env = Some (JObj kvs)"
    and "last (str_split CHR '' '' p) \<notin> set object_prototype"
  shows "fst (VyosConfig_show rt cl p log) =
    (case map_of kvs (last (str_split CHR '' '' p)) of
       Some v \<Rightarrow> Inr (Value v)
     | None \<Rightarrow> Inr (Value (JObj kvs)))"
proof -
  have r: "request rt cl ''retrieve''
             (JObj [(''op'', JStr ''showConfig''), (''path'', path_of p)]) log
           = (Inr env, log @ [wire rt cl ''retrieve''
             (JObj [(''op'', JStr ''showConfig''), (''path'', path_of p)])])"
    using assms(1-3) by (rule request_resolves)
  show ?thesis
  proof (cases "map_of kvs (last (str_split CHR '' '' p))")
    case None
    then have "last (str_split CHR '' '' p) \<notin> fst ` set kvs"
      by (simp add: map_of_eq_None_iff)
    with None assms(4,5) show ?thesis
      by (simp add: r VyosConfig_show_def unwrap_def)
  next
    case (Some v)
    then have "last (str_split CHR '' '' p) \<in> fst ` set kvs"
      by (metis map_of_eq_None_iff option.distinct(1))
    with Some assms(4) show ?thesis
      by (simp add: r VyosConfig_show_def unwrap_def)
  qed
qed

text \<open>The two examples of the specification.\<close>

lemma show_examples:
  "fst (VyosConfig_show (simulated (Reply 200 (envelope True (JObj [(''host-name'', JStr ''my-vyos'')]) JNull)))
          my_vyos ''system host-name'' []) = Inr (Value (JStr ''my-vyos''))
   \<and> fst (VyosConfig_show (simulated (Reply 200 (envelope True (JObj [(''a'', JNum 1), (''b'', JNum 2)]) JNull)))
          my_vyos ''system'' []) = Inr (Value (JObj [(''a'', JNum 1), (''b'', JNum 2)]))"
  by (simp add: VyosConfig_show_def request_def post_def simulated_def envelope_def
      try_body_def validateStatus_def unwrap_def object_prototype_def)

text \<open>
  Claim C3 fails on the code where the last piece of the path names a member of
  \<open>Object.prototype\<close>: the \<open>in\<close> operator finds inherited members too. For the path
  \<open>"firewall name constructor"\<close> and the data \<open>{ "default-action": "drop" }\<close>, which
  has no key \<open>constructor\<close>, \<open>show\<close> returns the inherited \<open>constructor\<close> function and
  not the mapping.
\<close>

theorem show_returns_inherited_member:
  "fst (VyosConfig_show
          (simulated (Reply 200 (envelope True (JObj [(''default-action'', JStr ''drop'')]) JNull)))
          my_vyos ''firewall name constructor'' []) = Inr (Builtin ''constructor'')"
  by (simp add: VyosConfig_show_def request_def post_def simulated_def envelope_def
      try_body_def validateStatus_def unwrap_def object_prototype_def)

end
